theory Spec2Isabelle
  imports Complex_Main
begin

section \<open>Numeric conventions\<close>

text \<open>
  The element is written in C against GLib and GStreamer.  Unsigned machine integers
  (\<open>guint\<close>, 32 bits; \<open>guint64\<close> and \<open>gsize\<close>, 64 bits) are natural numbers with the
  wrap-around written out by \<open>u32\<close> and \<open>u64\<close>.  The \<open>gint\<close> fields of the element
  hold property values that GObject keeps non-negative, so they are natural numbers
  too.  \<open>gfloat\<close> and \<open>gdouble\<close> values are idealised as real numbers: rounding,
  infinities and NaN are not represented.
\<close>

definition u32 :: "nat \<Rightarrow> nat" where
  "u32 n = n mod 2 ^ 32"

definition u64 :: "nat \<Rightarrow> nat" where
  "u64 n = n mod 2 ^ 64"

text \<open>Unsigned subtraction \<open>a - b\<close> of two 32-bit (64-bit) values.\<close>

definition sub_u32 :: "nat \<Rightarrow> nat \<Rightarrow> nat" where
  "sub_u32 a b = (a + 2 ^ 32 - b) mod 2 ^ 32"

definition sub_u64 :: "nat \<Rightarrow> nat \<Rightarrow> nat" where
  "sub_u64 a b = (a + 2 ^ 64 - b) mod 2 ^ 64"

definition GST_SECOND :: nat where
  "GST_SECOND = 1000000000"

text \<open>\<open>#define PI 3.14159265359\<close>\<close>

definition PI :: real where
  "PI = 3.14159265359"

section \<open>Errors and memory\<close>

text \<open>
  Undefined behaviour of the C program is an error value of the model: a dereference of
  \<open>NULL\<close> or of freed memory, an access past the end of an allocation, an integer
  division by zero, a failed \<open>g_assert\<close>.
\<close>

datatype error = BadPointer | OutOfBounds | DivisionByZero | AssertionFailed

definition ebind :: "error + 'a \<Rightarrow> ('a \<Rightarrow> error + 'b) \<Rightarrow> error + 'b" where
  "ebind m f = (case m of Inl e \<Rightarrow> Inl e | Inr x \<Rightarrow> f x)"

text \<open>
  A C loop \<open>for (i = a; i < b; i++) body\<close> whose body changes neither \<open>i\<close> nor the
  bound is \<open>for_loop [a..<b] body\<close>; it stops at the first error.
\<close>

fun for_loop :: "nat list \<Rightarrow> (nat \<Rightarrow> 's \<Rightarrow> error + 's) \<Rightarrow> 's \<Rightarrow> error + 's" where
  "for_loop [] body s = Inr s"
| "for_loop (i # is) body s =
     (case body i s of Inl e \<Rightarrow> Inl e | Inr s' \<Rightarrow> for_loop is body s')"

text \<open>
  The heap holds the arrays of samples: a block is addressed by its base pointer and
  indexed by element.  Pointer \<open>0\<close> is \<open>NULL\<close>.  \<open>next_free\<close> is the next address the
  allocator hands out.
\<close>

type_synonym ptr = nat

record heap =
  cells :: "ptr \<Rightarrow> real list option"
  next_free :: ptr

definition rd :: "heap \<Rightarrow> ptr \<Rightarrow> nat \<Rightarrow> error + real" where
  "rd h p i =
     (case cells h p of
        None \<Rightarrow> Inl BadPointer
      | Some xs \<Rightarrow> if i < length xs then Inr (xs ! i) else Inl OutOfBounds)"

definition wr :: "heap \<Rightarrow> ptr \<Rightarrow> nat \<Rightarrow> real \<Rightarrow> error + heap" where
  "wr h p i v =
     (case cells h p of
        None \<Rightarrow> Inl BadPointer
      | Some xs \<Rightarrow>
          if i < length xs then Inr (h\<lparr>cells := (cells h)(p \<mapsto> xs[i := v])\<rparr>)
          else Inl OutOfBounds)"

text \<open>\<open>g_new0 (gfloat, n)\<close> and \<open>g_malloc0\<close>: zero-filled, \<open>NULL\<close> for a size of zero.\<close>

definition g_new0 :: "heap \<Rightarrow> nat \<Rightarrow> ptr \<times> heap" where
  "g_new0 h n =
     (if n = 0 then (0, h)
      else (next_free h,
            h\<lparr>cells := (cells h)(next_free h \<mapsto> replicate n 0),
              next_free := Suc (next_free h)\<rparr>))"

definition g_free :: "heap \<Rightarrow> ptr \<Rightarrow> heap" where
  "g_free h p = h\<lparr>cells := (cells h)(p := None)\<rparr>"

text \<open>An array of pointers (\<open>gfloat **\<close>) is a list of pointers; \<open>a[i]\<close> is checked.\<close>

definition deref :: "ptr list \<Rightarrow> nat \<Rightarrow> error + ptr" where
  "deref a i = (if i < length a then Inr (a ! i) else Inl OutOfBounds)"

section \<open>The element\<close>

datatype reader =
    Mixed_float | Mixed_double | Mixed_int32_max | Mixed_int24_max | Mixed_int16_max
  | Plain_float | Plain_double | Plain_int32_max | Plain_int24_max | Plain_int16_max

datatype audio_format = S16 | S24 | S32 | F32 | F64

record GstCepstrumChannel =
  input :: ptr
  input_tmp :: ptr
  spect_magnitude :: ptr
  mfcc :: ptr

text \<open>A posted \<open>cepstrum\<close> message: its timestamp, its duration, one list per channel.\<close>

record message =
  msg_timestamp :: nat
  msg_duration :: nat
  msg_magnitude :: "real list list"

text \<open>
  The fields of \<open>struct _GstCepstrum\<close>, preceded by the negotiated audio format of the
  parent \<open>GstAudioFilter\<close> (\<open>GST_AUDIO_FILTER_RATE\<close>, \<open>_CHANNELS\<close>, \<open>_BPS\<close>, \<open>_BPF\<close>)
  and followed by the messages posted on the bus so far.  \<open>channel_data = None\<close> is the
  \<open>NULL\<close> pointer.
\<close>

record GstCepstrum =
  rate :: nat
  channels :: nat
  bps :: nat
  bpf :: nat
  num_coeffs :: nat
  num_filters :: nat
  sample_rate :: nat
  fft_size :: nat
  win_size :: nat
  hop_size :: nat
  use_preemphasis :: bool
  preemphasis_coeff :: real
  post_messages :: bool
  interval :: nat
  frames_per_interval :: nat
  frames_todo :: nat
  multi_channel :: bool
  num_frames :: nat
  num_fft :: nat
  message_ts :: nat
  channel_data :: "GstCepstrumChannel list option"
  num_channels :: nat
  input_pos :: nat
  error_per_interval :: nat
  accumulated_error :: nat
  filter_bank :: "ptr list"
  input_data :: "reader option"
  posted :: "message list"

section \<open>Signal processing\<close>

definition pre_emphasis :: "heap \<Rightarrow> ptr \<Rightarrow> nat \<Rightarrow> real \<Rightarrow> error + heap" where
  "pre_emphasis h data sz alpha =
     for_loop (rev [1..<sz]) (\<lambda>i h.
       ebind (rd h data i) (\<lambda>x.
       ebind (rd h data (i - 1)) (\<lambda>y.
       wr h data i (x - alpha * y)))) h"

definition hamming_window :: "heap \<Rightarrow> ptr \<Rightarrow> nat \<Rightarrow> error + heap" where
  "hamming_window h data sz =
     for_loop [0..<sz] (\<lambda>i h.
       ebind (rd h data i) (\<lambda>x.
       wr h data i (x * (0.54 - 0.46 * cos ((2 * PI * real i) / real (sub_u32 sz 1)))))) h"

text \<open>\<open>compute_dct (in, out, size)\<close>; the two pointers may be the same block.\<close>

definition compute_dct :: "heap \<Rightarrow> ptr \<Rightarrow> ptr \<Rightarrow> nat \<Rightarrow> error + heap" where
  "compute_dct h inp out sz =
     for_loop [0..<sz] (\<lambda>k h.
       ebind (wr h out k 0) (\<lambda>h.
       for_loop [0..<sz] (\<lambda>n h.
         ebind (rd h out k) (\<lambda>acc.
         ebind (rd h inp n) (\<lambda>x.
         wr h out k (acc + x * cos (PI * real k * (real n + 0.5) / real sz))))) h)) h"

definition hz_to_mel :: "real \<Rightarrow> real" where
  "hz_to_mel hz = 2595.0 * log 10 (1.0 + hz / 700.0)"

definition mel_to_hz :: "real \<Rightarrow> real" where
  "mel_to_hz mel = 700.0 * (10 powr (mel / 2595.0) - 1.0)"

text \<open>
  \<open>alloc_mel_filterbank\<close> fills the pointer array \<open>fbank\<close> that its caller allocated.
  The local array \<open>bin\<close> has \<open>nfilts + 2\<close> entries; \<open>guint k = bin[i]\<close> converts a
  non-negative float to an integer by truncation.
\<close>

definition alloc_mel_filterbank ::
  "heap \<Rightarrow> ptr list \<Rightarrow> nat \<Rightarrow> nat \<Rightarrow> nat \<Rightarrow> error + (ptr list \<times> heap)" where
  "alloc_mel_filterbank h fbank nfilts srate nfft =
     (let lowmel = hz_to_mel 0.0;
          highmel = hz_to_mel (real srate / 2.0);
          mel_step = (highmel - lowmel) / real (nfilts + 1);
          bin = map (\<lambda>i. real_of_int \<lfloor>real (nfft + 1) * mel_to_hz (lowmel + real i * mel_step)
                                        / real srate\<rfloor>) [0..<nfilts + 2]
      in for_loop [1..<nfilts + 1] (\<lambda>i (fbank, h).
           if i < length fbank then
             (let (p, h) = g_new0 h nfft; fbank = fbank[i := p] in
              ebind (for_loop [0..<nfft] (\<lambda>k h. wr h p k 0) h) (\<lambda>h.
              ebind (for_loop [nat \<lfloor>bin ! (i - 1)\<rfloor>..<nat \<lceil>bin ! i\<rceil>] (\<lambda>k h.
                       wr h p k ((real k - bin ! (i - 1)) / (bin ! i - bin ! (i - 1)))) h) (\<lambda>h.
              ebind (for_loop [nat \<lfloor>bin ! i\<rfloor>..<nat \<lceil>bin ! (i + 1)\<rceil>] (\<lambda>k h.
                       wr h p k ((bin ! (i + 1) - real k) / (bin ! (i + 1) - bin ! i))) h) (\<lambda>h.
              Inr (fbank, h)))))
           else Inl OutOfBounds) (fbank, h))"

definition free_mel_filterbank :: "heap \<Rightarrow> ptr list \<Rightarrow> nat \<Rightarrow> error + heap" where
  "free_mel_filterbank h fbank nfilts =
     for_loop [0..<nfilts] (\<lambda>i h. ebind (deref fbank i) (\<lambda>p. Inr (g_free h p))) h"

definition compute_mel_filterbank ::
  "heap \<Rightarrow> ptr \<Rightarrow> ptr \<Rightarrow> ptr list \<Rightarrow> nat \<Rightarrow> nat \<Rightarrow> error + heap" where
  "compute_mel_filterbank h inp out fbank nfilts nfft =
     for_loop [0..<nfilts] (\<lambda>i h.
       ebind (wr h out i 0.0) (\<lambda>h.
       ebind (for_loop [0..<nfft div 2] (\<lambda>j h.
                ebind (rd h out i) (\<lambda>acc.
                ebind (rd h inp j) (\<lambda>x.
                ebind (deref fbank i) (\<lambda>row.
                ebind (rd h row j) (\<lambda>w.
                wr h out i (acc + x * w)))))) h) (\<lambda>h.
       ebind (rd h inp i) (\<lambda>x.
       wr h out i (ln (x + 1 / 10 ^ 10)))))) h"


text \<open>
  \<open>gst_cepstrum_fft\<close>, in the \<open>HAVE_LIBFFTW\<close> variant.  \<open>fftw_execute\<close> belongs to
  the FFTW library: it is the parameter \<open>fftw\<close>, from the planned input array
  \<open>input_tmp\<close> to the complex array \<open>fftdata\<close>.  \<open>nfft * nfft\<close> is a \<open>guint\<close> product.
\<close>

definition nfft_of :: "nat \<Rightarrow> nat" where
  "nfft_of fft_sz = sub_u32 (u32 (2 * fft_sz)) 2"

definition gst_cepstrum_fft ::
  "(real list \<Rightarrow> (real \<times> real) list) \<Rightarrow> GstCepstrum \<Rightarrow> GstCepstrumChannel \<Rightarrow> heap
     \<Rightarrow> error + heap" where
  "gst_cepstrum_fft fftw cepstrum cd h =
     (let fft_sz = fft_size cepstrum; nfft = nfft_of fft_sz in
      case cells h (input_tmp cd) of
        None \<Rightarrow> Inl BadPointer
      | Some xs \<Rightarrow>
          (let fftdata = fftw xs in
           for_loop [0..<fft_sz] (\<lambda>i h.
             if i < length fftdata then
               (let val = fst (fftdata ! i) * fst (fftdata ! i);
                    val = val + snd (fftdata ! i) * snd (fftdata ! i);
                    val = val / real (u32 (nfft * nfft)) in
                ebind (rd h (spect_magnitude cd) i) (\<lambda>m.
                wr h (spect_magnitude cd) i (m + val)))
             else Inl OutOfBounds) h))"

text \<open>The first loop of \<open>gst_cepstrum_run_mfcc\<close>: the frame is copied to \<open>input_tmp\<close>.\<close>

definition run_mfcc_copy :: "heap \<Rightarrow> ptr \<Rightarrow> ptr \<Rightarrow> nat \<Rightarrow> nat \<Rightarrow> error + heap" where
  "run_mfcc_copy h inp tmp pos frame_size =
     for_loop [0..<frame_size] (\<lambda>i h.
       ebind (rd h inp (u32 (pos + i) mod frame_size)) (\<lambda>x.
       wr h tmp i x)) h"

definition gst_cepstrum_run_mfcc ::
  "(real list \<Rightarrow> (real \<times> real) list) \<Rightarrow> GstCepstrum \<Rightarrow> GstCepstrumChannel \<Rightarrow> nat \<Rightarrow> heap
     \<Rightarrow> error + heap" where
  "gst_cepstrum_run_mfcc fftw cepstrum cd pos h =
     (let frame_size = win_size cepstrum;
          nfft = nfft_of (fft_size cepstrum);
          nfilts = num_filters cepstrum;
          numcoeffs = num_coeffs cepstrum;
          alpha = preemphasis_coeff cepstrum in
      ebind (run_mfcc_copy h (input cd) (input_tmp cd) pos frame_size) (\<lambda>h.
      ebind (if use_preemphasis cepstrum then pre_emphasis h (input_tmp cd) frame_size alpha
             else Inr h) (\<lambda>h.
      ebind (hamming_window h (input_tmp cd) frame_size) (\<lambda>h.
      ebind (gst_cepstrum_fft fftw cepstrum cd h) (\<lambda>h.
      ebind (compute_mel_filterbank h (spect_magnitude cd) (mfcc cd) (filter_bank cepstrum)
               nfilts nfft) (\<lambda>h.
      compute_dct h (mfcc cd) (mfcc cd) numcoeffs))))))"

definition gst_cepstrum_prepare_message_data ::
  "GstCepstrum \<Rightarrow> GstCepstrumChannel \<Rightarrow> heap \<Rightarrow> error + heap" where
  "gst_cepstrum_prepare_message_data cepstrum cd h =
     for_loop [0..<fft_size cepstrum] (\<lambda>i h.
       ebind (rd h (spect_magnitude cd) i) (\<lambda>m.
       wr h (spect_magnitude cd) i (m / real (u32 (num_fft cepstrum))))) h"

text \<open>\<open>memset (mfcc, 0, mfcc_size * sizeof (gfloat))\<close> clears the first \<open>mfcc_size\<close> floats.\<close>

definition gst_cepstrum_reset_message_data ::
  "GstCepstrum \<Rightarrow> GstCepstrumChannel \<Rightarrow> heap \<Rightarrow> error + heap" where
  "gst_cepstrum_reset_message_data cepstrum cd h =
     (let mfcc_size = num_coeffs cepstrum in
      for_loop [0..<mfcc_size] (\<lambda>i h. wr h (mfcc cd) i 0) h)"

section \<open>Allocation, reset and properties\<close>

definition gst_cepstrum_alloc_channel_data ::
  "GstCepstrum \<Rightarrow> heap \<Rightarrow> error + (GstCepstrum \<times> heap)" where
  "gst_cepstrum_alloc_channel_data cepstrum h =
     (let fft_sz = fft_size cepstrum;
          nfilts = num_filters cepstrum;
          nfft = nfft_of fft_sz;
          srate = sample_rate cepstrum in
      if channel_data cepstrum \<noteq> None then Inl AssertionFailed
      else
        (let nchan = (if multi_channel cepstrum then channels cepstrum else 1);
             fbank = replicate nfilts 0 in
         ebind (for_loop [0..<nchan] (\<lambda>i (cds, h).
                  (let (p_input, h) = g_new0 h nfft;
                       (p_tmp, h) = g_new0 h nfft;
                       (p_mag, h) = g_new0 h fft_sz;
                       (p_mfcc, h) = g_new0 h nfilts in
                   Inr (cds @ [\<lparr>input = p_input, input_tmp = p_tmp,
                                 spect_magnitude = p_mag, mfcc = p_mfcc\<rparr>], h)))
                  ([], h)) (\<lambda>(cds, h).
         ebind (alloc_mel_filterbank h fbank nfilts srate nfft) (\<lambda>(fbank, h).
         Inr (cepstrum\<lparr>num_channels := nchan,
                        channel_data := (if nchan = 0 then None else Some cds),
                        filter_bank := fbank\<rparr>, h)))))"

text \<open>
  After \<open>g_free (cepstrum->filter_bank)\<close> the pointer array is gone; the model keeps
  the empty array in the field, so that a later access is an error.
\<close>

definition gst_cepstrum_free_channel_data ::
  "GstCepstrum \<Rightarrow> heap \<Rightarrow> error + (GstCepstrum \<times> heap)" where
  "gst_cepstrum_free_channel_data cepstrum h =
     (case channel_data cepstrum of
        None \<Rightarrow> Inr (cepstrum, h)
      | Some cds \<Rightarrow>
          ebind (for_loop [0..<num_channels cepstrum] (\<lambda>i h.
                   if i < length cds then
                     (let cd = cds ! i;
                          h = g_free h (input cd);
                          h = g_free h (input_tmp cd);
                          h = g_free h (mfcc cd);
                          h = g_free h (spect_magnitude cd) in
                      Inr h)
                   else Inl OutOfBounds) h) (\<lambda>h.
          ebind (free_mel_filterbank h (filter_bank cepstrum) (num_filters cepstrum)) (\<lambda>h.
          Inr (cepstrum\<lparr>filter_bank := [], channel_data := None\<rparr>, h))))"

definition gst_cepstrum_flush :: "GstCepstrum \<Rightarrow> GstCepstrum" where
  "gst_cepstrum_flush cepstrum =
     cepstrum\<lparr>num_frames := 0, num_fft := 0, accumulated_error := 0\<rparr>"

definition gst_cepstrum_reset_state ::
  "GstCepstrum \<Rightarrow> heap \<Rightarrow> error + (GstCepstrum \<times> heap)" where
  "gst_cepstrum_reset_state cepstrum h =
     ebind (gst_cepstrum_free_channel_data cepstrum h) (\<lambda>(cepstrum, h).
     Inr (gst_cepstrum_flush cepstrum, h))"

text \<open>A property identifier together with the value taken out of the \<open>GValue\<close>.\<close>

datatype property =
    PROP_POST_MESSAGES bool
  | PROP_INTERVAL nat
  | PROP_NUM_CEPSTRAL_COEFFS nat
  | PROP_SAMPLE_RATE nat
  | PROP_FFT_SIZE nat
  | PROP_WINDOW_SIZE nat
  | PROP_HOP_SIZE nat
  | PROP_USE_PREEMPHASIS bool
  | PROP_PREEMPHASIS_COEFF real
  | PROP_MULTI_CHANNEL bool

fun gst_cepstrum_set_property ::
  "property \<Rightarrow> GstCepstrum \<Rightarrow> heap \<Rightarrow> error + (GstCepstrum \<times> heap)" where
  "gst_cepstrum_set_property (PROP_POST_MESSAGES v) cepstrum h =
     Inr (cepstrum\<lparr>post_messages := v\<rparr>, h)"
| "gst_cepstrum_set_property (PROP_INTERVAL v) cepstrum h =
     (if interval cepstrum \<noteq> v then gst_cepstrum_reset_state (cepstrum\<lparr>interval := v\<rparr>) h
      else Inr (cepstrum, h))"
| "gst_cepstrum_set_property (PROP_NUM_CEPSTRAL_COEFFS v) cepstrum h =
     (if num_coeffs cepstrum \<noteq> v
      then gst_cepstrum_reset_state (cepstrum\<lparr>num_coeffs := v, num_filters := 2 * v\<rparr>) h
      else Inr (cepstrum, h))"
| "gst_cepstrum_set_property (PROP_SAMPLE_RATE v) cepstrum h =
     Inr (cepstrum\<lparr>sample_rate := v\<rparr>, h)"
| "gst_cepstrum_set_property (PROP_FFT_SIZE v) cepstrum h =
     (if fft_size cepstrum \<noteq> v then gst_cepstrum_reset_state (cepstrum\<lparr>fft_size := v\<rparr>) h
      else Inr (cepstrum, h))"
| "gst_cepstrum_set_property (PROP_WINDOW_SIZE v) cepstrum h =
     (if win_size cepstrum \<noteq> v then gst_cepstrum_reset_state (cepstrum\<lparr>win_size := v\<rparr>) h
      else Inr (cepstrum, h))"
| "gst_cepstrum_set_property (PROP_HOP_SIZE v) cepstrum h =
     (if hop_size cepstrum \<noteq> v then gst_cepstrum_reset_state (cepstrum\<lparr>hop_size := v\<rparr>) h
      else Inr (cepstrum, h))"
| "gst_cepstrum_set_property (PROP_USE_PREEMPHASIS v) cepstrum h =
     Inr (cepstrum\<lparr>use_preemphasis := v\<rparr>, h)"
| "gst_cepstrum_set_property (PROP_PREEMPHASIS_COEFF v) cepstrum h =
     Inr (cepstrum\<lparr>preemphasis_coeff := v\<rparr>, h)"
| "gst_cepstrum_set_property (PROP_MULTI_CHANNEL v) cepstrum h =
     (if multi_channel cepstrum \<noteq> v
      then gst_cepstrum_reset_state (cepstrum\<lparr>multi_channel := v\<rparr>) h
      else Inr (cepstrum, h))"


section \<open>Reading the input chunk\<close>

text \<open>
  The mapped memory of an input chunk is a block of the heap with one entry per
  interleaved sample; the entry is the number the sample encodes (for the 24-bit
  formats, the sign-extended value).  A byte pointer into the chunk is the block
  together with a sample index, so \<open>_in += 3\<close> of the 24-bit readers moves one sample
  on.  Every reader receives \<open>(_in, out, len, channels, max_value, op, nfft)\<close>.
\<close>

definition input_data_mixed_float ::
  "heap \<Rightarrow> ptr \<Rightarrow> nat \<Rightarrow> ptr \<Rightarrow> nat \<Rightarrow> nat \<Rightarrow> real \<Rightarrow> nat \<Rightarrow> nat \<Rightarrow> error + heap" where
  "input_data_mixed_float h dat off out len chans max_value op nfft =
     ebind (for_loop [0..<len] (\<lambda>j (h, ip, op).
              ebind (rd h dat (off + ip)) (\<lambda>v.
              ebind (for_loop [1..<chans] (\<lambda>i (v, ip).
                       ebind (rd h dat (off + ip)) (\<lambda>x. Inr (v + x, ip + 1)))
                       (v, ip + 1)) (\<lambda>(v, ip).
              ebind (wr h out op (v / real chans)) (\<lambda>h.
              if nfft = 0 then Inl DivisionByZero
              else Inr (h, ip, u32 (op + 1) mod nfft)))))
              (h, 0, op)) (\<lambda>(h, ip, op). Inr h)"

text \<open>\<open>input_data_mixed_double\<close> differs from it in the C type of the samples only.\<close>

definition input_data_mixed_double ::
  "heap \<Rightarrow> ptr \<Rightarrow> nat \<Rightarrow> ptr \<Rightarrow> nat \<Rightarrow> nat \<Rightarrow> real \<Rightarrow> nat \<Rightarrow> nat \<Rightarrow> error + heap" where
  "input_data_mixed_double = input_data_mixed_float"

definition input_data_mixed_int32_max ::
  "heap \<Rightarrow> ptr \<Rightarrow> nat \<Rightarrow> ptr \<Rightarrow> nat \<Rightarrow> nat \<Rightarrow> real \<Rightarrow> nat \<Rightarrow> nat \<Rightarrow> error + heap" where
  "input_data_mixed_int32_max h dat off out len chans max_value op nfft =
     ebind (for_loop [0..<len] (\<lambda>j (h, ip, op).
              ebind (rd h dat (off + ip)) (\<lambda>x0.
              ebind (for_loop [1..<chans] (\<lambda>i (v, ip).
                       ebind (rd h dat (off + ip)) (\<lambda>x. Inr (v + x / max_value, ip + 1)))
                       (x0 / max_value, ip + 1)) (\<lambda>(v, ip).
              ebind (wr h out op (v / real chans)) (\<lambda>h.
              if nfft = 0 then Inl DivisionByZero
              else Inr (h, ip, u32 (op + 1) mod nfft)))))
              (h, 0, op)) (\<lambda>(h, ip, op). Inr h)"

text \<open>The accumulator \<open>v\<close> of the 24-bit mixing reader is set once, before the frames.\<close>

definition input_data_mixed_int24_max ::
  "heap \<Rightarrow> ptr \<Rightarrow> nat \<Rightarrow> ptr \<Rightarrow> nat \<Rightarrow> nat \<Rightarrow> real \<Rightarrow> nat \<Rightarrow> nat \<Rightarrow> error + heap" where
  "input_data_mixed_int24_max h dat off out len chans max_value op nfft =
     ebind (for_loop [0..<len] (\<lambda>j (h, v, off, op).
              ebind (for_loop [0..<chans] (\<lambda>i (v, off).
                       ebind (rd h dat off) (\<lambda>x. Inr (v + x / max_value, off + 1)))
                       (v, off)) (\<lambda>(v, off).
              ebind (wr h out op (v / real chans)) (\<lambda>h.
              if nfft = 0 then Inl DivisionByZero
              else Inr (h, v, off, u32 (op + 1) mod nfft))))
              (h, 0.0, off, op)) (\<lambda>(h, v, off, op). Inr h)"

definition input_data_mixed_int16_max ::
  "heap \<Rightarrow> ptr \<Rightarrow> nat \<Rightarrow> ptr \<Rightarrow> nat \<Rightarrow> nat \<Rightarrow> real \<Rightarrow> nat \<Rightarrow> nat \<Rightarrow> error + heap" where
  "input_data_mixed_int16_max = input_data_mixed_int32_max"

definition input_data_float ::
  "heap \<Rightarrow> ptr \<Rightarrow> nat \<Rightarrow> ptr \<Rightarrow> nat \<Rightarrow> nat \<Rightarrow> real \<Rightarrow> nat \<Rightarrow> nat \<Rightarrow> error + heap" where
  "input_data_float h dat off out len chans max_value op nfft =
     ebind (for_loop [0..<len] (\<lambda>j (h, ip, op).
              ebind (rd h dat (off + ip)) (\<lambda>x.
              ebind (wr h out op x) (\<lambda>h.
              if nfft = 0 then Inl DivisionByZero
              else Inr (h, ip + chans, u32 (op + 1) mod nfft))))
              (h, 0, op)) (\<lambda>(h, ip, op). Inr h)"

definition input_data_double ::
  "heap \<Rightarrow> ptr \<Rightarrow> nat \<Rightarrow> ptr \<Rightarrow> nat \<Rightarrow> nat \<Rightarrow> real \<Rightarrow> nat \<Rightarrow> nat \<Rightarrow> error + heap" where
  "input_data_double = input_data_float"

definition input_data_int32_max ::
  "heap \<Rightarrow> ptr \<Rightarrow> nat \<Rightarrow> ptr \<Rightarrow> nat \<Rightarrow> nat \<Rightarrow> real \<Rightarrow> nat \<Rightarrow> nat \<Rightarrow> error + heap" where
  "input_data_int32_max h dat off out len chans max_value op nfft =
     ebind (for_loop [0..<len] (\<lambda>j (h, ip, op).
              ebind (rd h dat (off + ip)) (\<lambda>x.
              ebind (wr h out op (x / max_value)) (\<lambda>h.
              if nfft = 0 then Inl DivisionByZero
              else Inr (h, ip + chans, u32 (op + 1) mod nfft))))
              (h, 0, op)) (\<lambda>(h, ip, op). Inr h)"

definition input_data_int24_max ::
  "heap \<Rightarrow> ptr \<Rightarrow> nat \<Rightarrow> ptr \<Rightarrow> nat \<Rightarrow> nat \<Rightarrow> real \<Rightarrow> nat \<Rightarrow> nat \<Rightarrow> error + heap" where
  "input_data_int24_max h dat off out len chans max_value op nfft =
     ebind (for_loop [0..<len] (\<lambda>j (h, off, op).
              ebind (rd h dat off) (\<lambda>v.
              ebind (wr h out op (v / max_value)) (\<lambda>h.
              if nfft = 0 then Inl DivisionByZero
              else Inr (h, off + chans, u32 (op + 1) mod nfft))))
              (h, off, op)) (\<lambda>(h, off, op). Inr h)"

definition input_data_int16_max ::
  "heap \<Rightarrow> ptr \<Rightarrow> nat \<Rightarrow> ptr \<Rightarrow> nat \<Rightarrow> nat \<Rightarrow> real \<Rightarrow> nat \<Rightarrow> nat \<Rightarrow> error + heap" where
  "input_data_int16_max = input_data_int32_max"

text \<open>A call through the function pointer \<open>cepstrum->input_data\<close>.\<close>

fun call_input_data ::
  "reader \<Rightarrow> heap \<Rightarrow> ptr \<Rightarrow> nat \<Rightarrow> ptr \<Rightarrow> nat \<Rightarrow> nat \<Rightarrow> real \<Rightarrow> nat \<Rightarrow> nat \<Rightarrow> error + heap" where
  "call_input_data Mixed_float = input_data_mixed_float"
| "call_input_data Mixed_double = input_data_mixed_double"
| "call_input_data Mixed_int32_max = input_data_mixed_int32_max"
| "call_input_data Mixed_int24_max = input_data_mixed_int24_max"
| "call_input_data Mixed_int16_max = input_data_mixed_int16_max"
| "call_input_data Plain_float = input_data_float"
| "call_input_data Plain_double = input_data_double"
| "call_input_data Plain_int32_max = input_data_int32_max"
| "call_input_data Plain_int24_max = input_data_int24_max"
| "call_input_data Plain_int16_max = input_data_int16_max"

definition gst_cepstrum_setup ::
  "audio_format \<Rightarrow> GstCepstrum \<Rightarrow> heap \<Rightarrow> error + (GstCepstrum \<times> heap)" where
  "gst_cepstrum_setup fmt cepstrum h =
     (let mc = multi_channel cepstrum;
          reader = (case fmt of
                      S16 \<Rightarrow> if mc then Plain_int16_max else Mixed_int16_max
                    | S24 \<Rightarrow> if mc then Plain_int24_max else Mixed_int24_max
                    | S32 \<Rightarrow> if mc then Plain_int32_max else Mixed_int32_max
                    | F32 \<Rightarrow> if mc then Plain_float else Mixed_float
                    | F64 \<Rightarrow> if mc then Plain_double else Mixed_double) in
      gst_cepstrum_reset_state (cepstrum\<lparr>input_data := Some reader\<rparr>) h)"

section \<open>Messages\<close>

definition channel_at :: "GstCepstrum \<Rightarrow> nat \<Rightarrow> error + GstCepstrumChannel" where
  "channel_at cepstrum c =
     (case channel_data cepstrum of
        None \<Rightarrow> Inl BadPointer
      | Some cds \<Rightarrow> if c < length cds then Inr (cds ! c) else Inl OutOfBounds)"

definition gst_cepstrum_message_add_list :: "heap \<Rightarrow> ptr \<Rightarrow> nat \<Rightarrow> error + real list" where
  "gst_cepstrum_message_add_list h data num_values =
     for_loop [0..<num_values] (\<lambda>i vs. ebind (rd h data i) (\<lambda>v. Inr (vs @ [v]))) []"

text \<open>
  \<open>gst_cepstrum_message_new\<close>; the running time and the stream time, which GStreamer
  derives from the segment, are left out of the message.
\<close>

definition gst_cepstrum_message_new ::
  "GstCepstrum \<Rightarrow> nat \<Rightarrow> nat \<Rightarrow> heap \<Rightarrow> error + message" where
  "gst_cepstrum_message_new cepstrum timestamp duration h =
     (if \<not> multi_channel cepstrum then
        ebind (channel_at cepstrum 0) (\<lambda>cd.
        ebind (gst_cepstrum_message_add_list h (mfcc cd) (num_coeffs cepstrum)) (\<lambda>vs.
        Inr \<lparr>msg_timestamp = timestamp, msg_duration = duration, msg_magnitude = [vs]\<rparr>))
      else
        ebind (for_loop [0..<channels cepstrum] (\<lambda>c vss.
                 ebind (channel_at cepstrum c) (\<lambda>cd.
                 ebind (gst_cepstrum_message_add_list h (mfcc cd) (num_coeffs cepstrum)) (\<lambda>vs.
                 Inr (vss @ [vs])))) []) (\<lambda>vss.
        Inr \<lparr>msg_timestamp = timestamp, msg_duration = duration, msg_magnitude = vss\<rparr>))"


section \<open>Processing an input chunk\<close>

text \<open>
  \<open>gst_util_uint64_scale (val, num, denom)\<close> is a GStreamer utility, not code of this
  element.  Its reference documentation: the result is \<open>val * num / denom\<close>, truncated
  when it is not an integer, and \<open>G_MAXUINT64\<close> on overflow or for a zero denominator.
\<close>

definition gst_util_uint64_scale :: "nat \<Rightarrow> nat \<Rightarrow> nat \<Rightarrow> nat" where
  "gst_util_uint64_scale val num denom =
     (if denom = 0 then 2 ^ 64 - 1
      else if val * num div denom \<ge> 2 ^ 64 then 2 ^ 64 - 1
      else val * num div denom)"

definition GST_CLOCK_TIME_IS_VALID :: "nat \<Rightarrow> bool" where
  "GST_CLOCK_TIME_IS_VALID t = (t \<noteq> 2 ^ 64 - 1)"

text \<open>An input chunk: the flags and timestamp of the \<open>GstBuffer\<close> and its mapping.\<close>

record GstBuffer =
  buf_discont :: bool
  buf_timestamp :: nat
  buf_data :: ptr
  buf_size :: nat

text \<open>\<open>guint output_channels = cepstrum->multi_channel ? channels : 1\<close>\<close>

definition output_channels :: "GstCepstrum \<Rightarrow> nat" where
  "output_channels cepstrum = (if multi_channel cepstrum then channels cepstrum else 1)"

text \<open>
  The block of \<open>gst_cepstrum_transform_ip\<close> that runs when \<open>channel_data\<close> is \<open>NULL\<close>:
  the allocation, then the assignments that set up the interval.  \<open>rate\<close> is
  \<open>GST_AUDIO_FILTER_RATE\<close>, the rate of the negotiated format, not the \<open>sample-rate\<close>
  property.
\<close>

definition transform_ip_schedule :: "GstCepstrum \<Rightarrow> GstCepstrum" where
  "transform_ip_schedule cepstrum =
     (let cepstrum = cepstrum\<lparr>frames_per_interval :=
                         gst_util_uint64_scale (interval cepstrum) (rate cepstrum) GST_SECOND\<rparr>;
          cepstrum = cepstrum\<lparr>frames_todo := frames_per_interval cepstrum\<rparr>;
          cepstrum = cepstrum\<lparr>error_per_interval :=
                         u64 (interval cepstrum * rate cepstrum) mod GST_SECOND\<rparr>;
          cepstrum = (if frames_per_interval cepstrum = 0
                      then cepstrum\<lparr>frames_per_interval := 1\<rparr> else cepstrum);
          cepstrum = cepstrum\<lparr>input_pos := 0\<rparr> in
      gst_cepstrum_flush cepstrum)"

definition transform_ip_configure :: "GstCepstrum \<Rightarrow> heap \<Rightarrow> error + (GstCepstrum \<times> heap)" where
  "transform_ip_configure cepstrum h =
     ebind (gst_cepstrum_alloc_channel_data cepstrum h) (\<lambda>(cepstrum, h).
     Inr (transform_ip_schedule cepstrum, h))"

text \<open>The block of the loop that runs when \<open>have_full_interval\<close> holds.\<close>

definition transform_ip_interval ::
  "GstCepstrum \<Rightarrow> heap \<Rightarrow> error + (GstCepstrum \<times> heap)" where
  "transform_ip_interval cepstrum h =
     (let cepstrum = cepstrum\<lparr>frames_todo := frames_per_interval cepstrum\<rparr>;
          cepstrum = (if accumulated_error cepstrum \<ge> GST_SECOND
                      then cepstrum\<lparr>accumulated_error := accumulated_error cepstrum - GST_SECOND,
                                    frames_todo := u64 (frames_todo cepstrum + 1)\<rparr>
                      else cepstrum);
          cepstrum = cepstrum\<lparr>accumulated_error :=
                         u64 (accumulated_error cepstrum + error_per_interval cepstrum)\<rparr> in
      ebind (if post_messages cepstrum then
               ebind (for_loop [0..<output_channels cepstrum] (\<lambda>c h.
                        ebind (channel_at cepstrum c) (\<lambda>cd.
                        gst_cepstrum_prepare_message_data cepstrum cd h)) h) (\<lambda>h.
               ebind (gst_cepstrum_message_new cepstrum (message_ts cepstrum)
                        (interval cepstrum) h) (\<lambda>m.
               Inr (cepstrum\<lparr>posted := posted cepstrum @ [m]\<rparr>, h)))
             else Inr (cepstrum, h)) (\<lambda>(cepstrum, h).
      (let cepstrum = (if GST_CLOCK_TIME_IS_VALID (message_ts cepstrum)
                       then cepstrum\<lparr>message_ts := u64 (message_ts cepstrum +
                              gst_util_uint64_scale (num_frames cepstrum) GST_SECOND
                                (rate cepstrum))\<rparr>
                       else cepstrum) in
       ebind (for_loop [0..<output_channels cepstrum] (\<lambda>c h.
                ebind (channel_at cepstrum c) (\<lambda>cd.
                gst_cepstrum_reset_message_data cepstrum cd h)) h) (\<lambda>h.
       Inr (cepstrum\<lparr>num_frames := 0, num_fft := 0\<rparr>, h)))))"

text \<open>
  The local variables of the \<open>while\<close> loop next to the element and the heap: the
  position \<open>data\<close> in the chunk (in samples: \<open>data += block_size * bpf\<close> moves
  \<open>block_size\<close> frames of \<open>channels\<close> samples on), the bytes left, the write cursor.
\<close>

record loop_state =
  ls_cepstrum :: GstCepstrum
  ls_heap :: heap
  ls_data :: nat
  ls_size :: nat
  ls_input_pos :: nat

text \<open>
  The body of \<open>while (size >= bpf)\<close>, block by block.  First the number of frames
  to take: \<open>fft_todo\<close>, \<open>msg_todo\<close> and \<open>block_size\<close> are \<open>guint\<close>, the counters
  are \<open>guint64\<close>.
\<close>

definition transform_ip_block_size :: "GstCepstrum \<Rightarrow> nat \<Rightarrow> nat \<Rightarrow> nat" where
  "transform_ip_block_size cepstrum nfft sz =
     (let fft_todo = u32 (sub_u64 nfft (num_frames cepstrum mod nfft));
          msg_todo = u32 (sub_u64 (frames_todo cepstrum) (num_frames cepstrum));
          block_size = msg_todo;
          block_size = (if block_size > sz div bpf cepstrum
                        then u32 (sz div bpf cepstrum) else block_size);
          block_size = (if block_size > fft_todo then fft_todo else block_size) in
      block_size)"

text \<open>The frames are moved into the ring buffer of every channel.\<close>

definition transform_ip_read ::
  "GstCepstrum \<Rightarrow> ptr \<Rightarrow> nat \<Rightarrow> nat \<Rightarrow> nat \<Rightarrow> nat \<Rightarrow> heap \<Rightarrow> error + heap" where
  "transform_ip_read cepstrum dat data block_size pos nfft h =
     (let max_value = real (2 ^ (8 * bps cepstrum - 1) - 1) in
      for_loop [0..<output_channels cepstrum] (\<lambda>c h.
        ebind (channel_at cepstrum c) (\<lambda>cd.
        case input_data cepstrum of
          None \<Rightarrow> Inl BadPointer
        | Some reader \<Rightarrow>
            call_input_data reader h dat (data + c) (input cd) block_size
              (channels cepstrum) max_value pos nfft)) h)"

text \<open>
  A transform runs when a whole frame has been read, or when the interval is complete
  and no transform has run in it.
\<close>

definition transform_ip_mfcc ::
  "(real list \<Rightarrow> (real \<times> real) list) \<Rightarrow> GstCepstrum \<Rightarrow> bool \<Rightarrow> nat \<Rightarrow> nat \<Rightarrow> heap
     \<Rightarrow> error + (GstCepstrum \<times> heap)" where
  "transform_ip_mfcc fftw cepstrum have_full_interval pos nfft h =
     (if num_frames cepstrum mod nfft = 0 \<or> (have_full_interval \<and> num_fft cepstrum = 0)
      then
        ebind (for_loop [0..<output_channels cepstrum] (\<lambda>c h.
                 ebind (channel_at cepstrum c) (\<lambda>cd.
                 gst_cepstrum_run_mfcc fftw cepstrum cd pos h)) h) (\<lambda>h.
        Inr (cepstrum\<lparr>num_fft := u64 (num_fft cepstrum + 1)\<rparr>, h))
      else Inr (cepstrum, h))"

text \<open>One pass through the body of the loop.\<close>

definition transform_ip_step ::
  "(real list \<Rightarrow> (real \<times> real) list) \<Rightarrow> ptr \<Rightarrow> loop_state \<Rightarrow> error + loop_state" where
  "transform_ip_step fftw dat ls =
     (let cepstrum = ls_cepstrum ls;
          nfft = nfft_of (fft_size cepstrum) in
      if nfft = 0 then Inl DivisionByZero
      else if bpf cepstrum = 0 then Inl DivisionByZero
      else
        (let block_size = transform_ip_block_size cepstrum nfft (ls_size ls) in
         ebind (transform_ip_read cepstrum dat (ls_data ls) block_size (ls_input_pos ls) nfft
                  (ls_heap ls)) (\<lambda>h.
         (let data = ls_data ls + block_size * channels cepstrum;
              sz = sub_u64 (ls_size ls) (u32 (block_size * bpf cepstrum));
              pos = u32 (ls_input_pos ls + block_size) mod nfft;
              cepstrum = cepstrum\<lparr>num_frames := u64 (num_frames cepstrum + block_size)\<rparr>;
              have_full_interval = (num_frames cepstrum = frames_todo cepstrum) in
          ebind (transform_ip_mfcc fftw cepstrum have_full_interval pos nfft h) (\<lambda>(cepstrum, h).
          ebind (if have_full_interval then transform_ip_interval cepstrum h
                 else Inr (cepstrum, h)) (\<lambda>(cepstrum, h).
          Inr \<lparr>ls_cepstrum = cepstrum, ls_heap = h, ls_data = data, ls_size = sz,
               ls_input_pos = pos\<rparr>))))))"

text \<open>
  The loop \<open>while (size >= bpf)\<close>.  Nothing in the code bounds the number of passes,
  so the model counts them: \<open>None\<close> means that \<open>fuel\<close> passes did not reach the exit.
\<close>

fun transform_ip_loop ::
  "(real list \<Rightarrow> (real \<times> real) list) \<Rightarrow> nat \<Rightarrow> ptr \<Rightarrow> loop_state
     \<Rightarrow> (error + loop_state) option" where
  "transform_ip_loop fftw 0 dat ls =
     (if ls_size ls \<ge> bpf (ls_cepstrum ls) then None else Some (Inr ls))"
| "transform_ip_loop fftw (Suc fuel) dat ls =
     (if ls_size ls \<ge> bpf (ls_cepstrum ls) then
        (case transform_ip_step fftw dat ls of
           Inl e \<Rightarrow> Some (Inl e)
         | Inr ls' \<Rightarrow> transform_ip_loop fftw fuel dat ls')
      else Some (Inr ls))"

definition gst_cepstrum_transform_ip ::
  "(real list \<Rightarrow> (real \<times> real) list) \<Rightarrow> nat \<Rightarrow> GstBuffer \<Rightarrow> GstCepstrum \<Rightarrow> heap
     \<Rightarrow> (error + (GstCepstrum \<times> heap)) option" where
  "gst_cepstrum_transform_ip fftw fuel buffer cepstrum h =
     (let cepstrum = (if buf_discont buffer then gst_cepstrum_flush cepstrum else cepstrum) in
      case (if channel_data cepstrum = None then transform_ip_configure cepstrum h
            else Inr (cepstrum, h)) of
        Inl e \<Rightarrow> Some (Inl e)
      | Inr (cepstrum, h) \<Rightarrow>
          (let cepstrum = (if num_frames cepstrum = 0
                           then cepstrum\<lparr>message_ts := buf_timestamp buffer\<rparr> else cepstrum) in
           case transform_ip_loop fftw fuel (buf_data buffer)
                  \<lparr>ls_cepstrum = cepstrum, ls_heap = h, ls_data = 0,
                   ls_size = buf_size buffer, ls_input_pos = input_pos cepstrum\<rparr> of
             None \<Rightarrow> None
           | Some (Inl e) \<Rightarrow> Some (Inl e)
           | Some (Inr ls) \<Rightarrow>
               if ls_size ls = 0
               then Some (Inr ((ls_cepstrum ls)\<lparr>input_pos := ls_input_pos ls\<rparr>, ls_heap ls))
               else Some (Inl AssertionFailed)))"


section \<open>Initial state and example inputs\<close>

text \<open>
  \<open>gst_cepstrum_init\<close> sets the defaults of the properties; GObject hands it zeroed
  memory, so every other field, \<open>num_filters\<close> among them, starts as zero.
\<close>

definition gst_cepstrum_init :: GstCepstrum where
  "gst_cepstrum_init =
     \<lparr>rate = 0, channels = 0, bps = 0, bpf = 0,
      num_coeffs = 13, num_filters = 0, sample_rate = 16000, fft_size = 512,
      win_size = 512, hop_size = 256, use_preemphasis = True, preemphasis_coeff = 0.97,
      post_messages = True, interval = GST_SECOND div 10, frames_per_interval = 0,
      frames_todo = 0, multi_channel = False, num_frames = 0, num_fft = 0, message_ts = 0,
      channel_data = None, num_channels = 0, input_pos = 0, error_per_interval = 0,
      accumulated_error = 0, filter_bank = [], input_data = None, posted = []\<rparr>"

text \<open>
  A spectrum \<open>[0, 1, 0]\<close> at address 4, a coefficient buffer for two filters at 5,
  and two filters of length \<open>nfft = 4\<close> at 6 and 7.
\<close>

definition mel_example_heap :: heap where
  "mel_example_heap =
     \<lparr>cells = [4 \<mapsto> [0, 1, 0], 5 \<mapsto> [9, 9], 6 \<mapsto> [1, 1, 0, 0], 7 \<mapsto> [0, 1, 0, 0]],
      next_free = 8\<rparr>"

text \<open>The filter energies \<open>[1, 1]\<close> of two filters, in the coefficient buffer at 5.\<close>

definition dct_example_heap :: heap where
  "dct_example_heap = \<lparr>cells = [5 \<mapsto> [1, 1]], next_free = 8\<rparr>"

text \<open>A circular buffer of length \<open>nfft = 4\<close> at 2 and the scratch buffer at 3.\<close>

definition copy_example_heap :: heap where
  "copy_example_heap =
     \<lparr>cells = [2 \<mapsto> [10, 11, 12, 13], 3 \<mapsto> [0, 0, 0, 0]], next_free = 8\<rparr>"

text \<open>The heap before any chunk is mapped or any buffer allocated.\<close>

definition empty_heap :: heap where
  "empty_heap = \<lparr>cells = Map.empty, next_free = 1\<rparr>"

text \<open>
  The element after negotiation of mono 32-bit float audio at rate \<open>r\<close>, with the
  \<open>interval\<close> property set to \<open>i\<close> and every other property at its default.
\<close>

definition configure_example :: "nat \<Rightarrow> nat \<Rightarrow> GstCepstrum" where
  "configure_example i r =
     gst_cepstrum_init\<lparr>rate := r, channels := 1, bps := 4, bpf := 4,
       input_data := Some Mixed_float, interval := i\<rparr>"

text \<open>
  At 8000 Hz, an \<open>interval\<close> of \<open>(2 ^ 32 + 1) * 125000\<close> ns is \<open>2 ^ 32 + 1\<close> frames.
\<close>

definition long_interval_element :: GstCepstrum where
  "long_interval_element = configure_example 536870912125000 8000"

text \<open>A chunk of two mono float frames (8 bytes), mapped at address 1.\<close>

definition two_frame_heap :: heap where
  "two_frame_heap = \<lparr>cells = [1 \<mapsto> [0.5, 0.25]], next_free = 2\<rparr>"

definition two_frame_chunk :: GstBuffer where
  "two_frame_chunk = \<lparr>buf_discont = False, buf_timestamp = 0, buf_data = 1, buf_size = 8\<rparr>"

text \<open>
  An element at the end of an interval of 800 frames in which one transform ran: one
  channel, one coefficient, two filters, a spectrum accumulator \<open>[3, 4]\<close> at address 3
  and a coefficient buffer \<open>[7, 8]\<close> at address 4.
\<close>

definition interval_example_element :: GstCepstrum where
  "interval_example_element =
     gst_cepstrum_init\<lparr>rate := 8000, channels := 1, bps := 4, bpf := 4,
       input_data := Some Mixed_float, num_coeffs := 1, num_filters := 2, fft_size := 2,
       frames_per_interval := 800, frames_todo := 800, num_frames := 800, num_fft := 1,
       channel_data := Some [\<lparr>input = 1, input_tmp = 2, spect_magnitude = 3, mfcc = 4\<rparr>],
       num_channels := 1, filter_bank := [5, 6]\<rparr>"

definition interval_example_heap :: heap where
  "interval_example_heap =
     \<lparr>cells = [1 \<mapsto> [0, 0], 2 \<mapsto> [0, 0], 3 \<mapsto> [3, 4], 4 \<mapsto> [7, 8],
               5 \<mapsto> [0, 0], 6 \<mapsto> [0, 0]], next_free = 7\<rparr>"

text \<open>
  The same element at the start of an interval of two frames, with a window of two
  samples, and a chunk of two mono float frames mapped at address 7.
\<close>

definition mfcc_example_element :: GstCepstrum where
  "mfcc_example_element =
     interval_example_element\<lparr>win_size := 2, frames_per_interval := 2, frames_todo := 2,
       num_frames := 0, num_fft := 0\<rparr>"

definition mfcc_example_heap :: heap where
  "mfcc_example_heap =
     interval_example_heap\<lparr>cells := (cells interval_example_heap)(7 \<mapsto> [0.5, 0.25]),
       next_free := 8\<rparr>"

definition mfcc_example_chunk :: GstBuffer where
  "mfcc_example_chunk =
     \<lparr>buf_discont = False, buf_timestamp = 0, buf_data = 7, buf_size = 8\<rparr>"

text \<open>
  The element after negotiation of mono 24-bit audio at 8000 Hz, every property at its
  default: \<open>gst_cepstrum_setup\<close> selects the 24-bit mixing reader.  Two frames with the
  sample value \<open>2 ^ 23 - 1\<close> arrive either as one chunk, mapped at address 1, or as two
  chunks of one frame, mapped at 2 and 3.
\<close>

definition s24_element :: GstCepstrum where
  "s24_element =
     gst_cepstrum_init\<lparr>rate := 8000, channels := 1, bps := 3, bpf := 3,
       input_data := Some Mixed_int24_max\<rparr>"

definition s24_heap :: heap where
  "s24_heap =
     \<lparr>cells = [1 \<mapsto> [8388607, 8388607], 2 \<mapsto> [8388607], 3 \<mapsto> [8388607]],
      next_free = 4\<rparr>"

definition s24_whole :: GstBuffer where
  "s24_whole = \<lparr>buf_discont = False, buf_timestamp = 0, buf_data = 1, buf_size = 6\<rparr>"

definition s24_first :: GstBuffer where
  "s24_first = \<lparr>buf_discont = False, buf_timestamp = 0, buf_data = 2, buf_size = 3\<rparr>"

definition s24_second :: GstBuffer where
  "s24_second = \<lparr>buf_discont = False, buf_timestamp = 125000, buf_data = 3, buf_size = 3\<rparr>"

text \<open>The arrays that belong to the channels of the element.\<close>

definition owned :: "GstCepstrum \<Rightarrow> ptr set" where
  "owned c =
     (case channel_data c of
        None \<Rightarrow> {}
      | Some cds \<Rightarrow>
          (\<Union>cd \<in> set cds. {input cd, input_tmp cd, spect_magnitude cd, mfcc cd}))"

text \<open>
  A pass of the loop changes nothing in a state like this one: the 32-bit \<open>msg_todo\<close>
  is zero although the interval is not complete, and no transform is due.
\<close>

definition stuck :: "loop_state \<Rightarrow> bool" where
  "stuck ls =
     (let c = ls_cepstrum ls; nfft = nfft_of (fft_size c) in
      nfft \<noteq> 0 \<and> nfft < 2 ^ 32 \<and> bpf c \<noteq> 0 \<and> bpf c \<le> ls_size ls \<and> ls_size ls < 2 ^ 64 \<and>
      num_frames c < 2 ^ 64 \<and> ls_input_pos ls < nfft \<and>
      u32 (sub_u64 (frames_todo c) (num_frames c)) = 0 \<and>
      num_frames c \<noteq> frames_todo c \<and> num_frames c mod nfft \<noteq> 0 \<and>
      input_data c \<noteq> None \<and>
      (case channel_data c of
         None \<Rightarrow> False
       | Some cds \<Rightarrow> output_channels c \<le> length cds))"

section \<open>Basic facts\<close>

lemma ebind_Inl [simp]: "ebind (Inl e) f = Inl e"
  by (simp add: ebind_def)

lemma ebind_Inr [simp]: "ebind (Inr x) f = f x"
  by (simp add: ebind_def)

lemma ebind_InrE:
  assumes "ebind m f = Inr y"
  obtains x where "m = Inr x" and "f x = Inr y"
  using assms by (cases m) auto

lemmas int_defs = u32_def u64_def sub_u32_def sub_u64_def GST_SECOND_def nfft_of_def

lemmas mem_defs = rd_def wr_def deref_def g_new0_def g_free_def channel_at_def

lemma for_loop_id:
  "(\<And>i. i \<in> set xs \<Longrightarrow> body i s = Inr s) \<Longrightarrow> for_loop xs body s = Inr s"
  by (induction xs) auto

lemma for_loop_append:
  "for_loop (xs @ ys) body s = ebind (for_loop xs body s) (for_loop ys body)"
  by (induction xs arbitrary: s) (auto split: sum.splits)

lemma for_loop_invariant:
  assumes "for_loop xs body s = Inr s'" and "P s"
    and "\<And>i t t'. i \<in> set xs \<Longrightarrow> P t \<Longrightarrow> body i t = Inr t' \<Longrightarrow> P t'"
  shows "P s'"
  using assms
proof (induction xs arbitrary: s)
  case Nil
  then show ?case by simp
next
  case (Cons a xs)
  from Cons.prems(1) obtain t where t: "body a s = Inr t" "for_loop xs body t = Inr s'"
    by (auto split: sum.splits)
  have "P t"
    using Cons.prems(3) [of a s t] Cons.prems(2) t(1) by simp
  then show ?case
    by (rule Cons.IH [OF t(2)]) (use Cons.prems(3) in auto)
qed

section \<open>The Mel Filterbank Builder\<close>

text \<open>
  A loop over \<open>i = 1, \<dots>, n\<close> that stores into entry \<open>i\<close> of an array of at most \<open>n\<close>
  entries runs past its end.
\<close>

lemma for_loop_overrun:
  fixes F :: "nat \<Rightarrow> ptr list \<Rightarrow> heap \<Rightarrow> error + (ptr list \<times> heap)"
  assumes len: "\<And>i fb h fb' h'. F i fb h = Inr (fb', h') \<Longrightarrow> length fb' = length fb"
    and "length fbank \<le> n" and "0 < n"
  shows "\<exists>e. for_loop [1..<n + 1]
               (\<lambda>i (fb, h). if i < length fb then F i fb h else Inl OutOfBounds) (fbank, h)
             = Inl e"
proof -
  let ?body = "\<lambda>i (fb, h). if i < length fb then F i fb h else Inl OutOfBounds"
  show ?thesis
  proof (cases "for_loop [1..<n] ?body (fbank, h)")
    case (Inl e)
    then show ?thesis
      using \<open>0 < n\<close> by (simp add: for_loop_append)
  next
    case (Inr r)
    have "case r of (fb, h) \<Rightarrow> length fb = length fbank"
      by (rule for_loop_invariant [OF Inr]) (auto split: if_splits dest!: len)
    then have "?body n r = Inl OutOfBounds"
      using \<open>length fbank \<le> n\<close> by (auto split: prod.splits)
    then show ?thesis
      using Inr \<open>0 < n\<close> by (simp add: for_loop_append)
  qed
qed

lemma alloc_mel_filterbank_overruns:
  assumes "length fbank \<le> nfilts" and "0 < nfilts"
  shows "\<exists>e. alloc_mel_filterbank h fbank nfilts srate nfft = Inl e"
  unfolding alloc_mel_filterbank_def Let_def
  by (rule for_loop_overrun [OF _ assms]) (auto simp: ebind_def split: prod.splits sum.splits)

text \<open>
  Claim C8 says that the builder returns \<open>numFilters\<close> allocated weight vectors, indexed
  \<open>0, \<dots>, numFilters - 1\<close>.  \<open>alloc_mel_filterbank\<close> allocates \<open>fbank[i]\<close> for
  \<open>i = 1, \<dots>, nfilts\<close>: entry \<open>0\<close> of the array keeps the \<open>NULL\<close> that \<open>g_malloc0\<close> put
  there, and \<open>fbank[nfilts]\<close> lies behind the \<open>nfilts\<close> pointers that
  \<open>gst_cepstrum_alloc_channel_data\<close> allocated.  For two filters the call ends in that
  access, not in a filterbank.
\<close>

theorem alloc_mel_filterbank_two_filters_overrun:
  "\<exists>e. alloc_mel_filterbank empty_heap (replicate 2 0) 2 16000 4 = Inl e"
  by (rule alloc_mel_filterbank_overruns) simp_all

section \<open>The Cepstral Projector\<close>

text \<open>
  Claim C1 says that the coefficient buffer receives, for every filter \<open>i\<close>, the
  logarithm of the filterbank-weighted sum.  In \<open>compute_mel_filterbank\<close> the sum is
  accumulated in \<open>out[i]\<close> and then overwritten by \<open>log (in[i] + 1e-10)\<close>, the logarithm
  of the raw spectrum value at index \<open>i\<close>.  For the spectrum \<open>[0, 1, 0]\<close> and the filter
  \<open>[1, 1, 0, 0]\<close> the weighted sum is \<open>1\<close>, and the code stores \<open>ln (0 + 1e-10)\<close>, which
  is not \<open>ln (1 + 1e-10)\<close>.
\<close>

theorem compute_mel_filterbank_logs_raw_spectrum:
  "map_sum id (\<lambda>h. cells h 5) (compute_mel_filterbank mel_example_heap 4 5 [6, 7] 2 4)
     = Inr (Some [ln (0 + 1 / 10 ^ 10), ln (1 + 1 / 10 ^ 10)])
   \<and> ln (0 + 1 / 10 ^ 10) \<noteq> ln ((0 * 1 + 1 * 1) + 1 / 10 ^ 10 :: real)"
  by (simp add: compute_mel_filterbank_def mel_example_heap_def mem_defs upt_conv_Cons)

text \<open>
  Claim C2 says that coefficient \<open>k\<close> is the sum of \<open>energy[n] * cos (pi * k * (n + 0.5) /
  numFilters)\<close> over all \<open>numFilters\<close> energies, which the transform leaves unmodified.
  \<open>gst_cepstrum_run_mfcc\<close> calls \<open>compute_dct (mfcc, mfcc, numcoeffs)\<close>: the transform
  runs in place, over \<open>numcoeffs\<close> inputs.  With one coefficient and the two energies
  \<open>[1, 1]\<close>, \<open>out[0] = 0\<close> clears \<open>in[0]\<close> before it is read, and the result is
  \<open>0\<close> where the claim gives \<open>1 * cos 0 + 1 * cos 0 = 2\<close>.
\<close>

theorem compute_dct_in_place_clobbers_input:
  "map_sum id (\<lambda>h. cells h 5) (compute_dct dct_example_heap 5 5 1) = Inr (Some [0, 1])
   \<and> (0::real) \<noteq> 1 * cos (pi * 0 * (0 + 0.5) / 2) + 1 * cos (pi * 0 * (1 + 0.5) / 2)"
  by (simp add: compute_dct_def dct_example_heap_def mem_defs upt_conv_Cons)

text \<open>
  Claim C3 says that the scratch buffer receives \<open>circular[(p + i) mod frameLength]\<close>.
  The copy loop of \<open>gst_cepstrum_run_mfcc\<close> reduces the index modulo the window size
  instead.  With \<open>frameLength = 4\<close>, a window of \<open>2\<close> and the cursor at \<open>1\<close>, entry \<open>1\<close>
  of the scratch buffer is \<open>circular[0] = 10\<close>, not \<open>circular[2] = 12\<close>.
\<close>

theorem run_mfcc_copy_wraps_at_window_size:
  "map_sum id (\<lambda>h. cells h 3) (run_mfcc_copy copy_example_heap 2 3 1 2)
     = Inr (Some [11, 10, 0, 0])
   \<and> (10::real) \<noteq> [10, 11, 12, 13] ! ((1 + 1) mod 4)"
  by (simp add: run_mfcc_copy_def copy_example_heap_def mem_defs upt_conv_Cons u32_def)

section \<open>Properties\<close>

text \<open>
  Claim C7 says that a new value for the sample rate, like one for the transform size,
  the window size, the coefficient count, the channel mode or the interval, tears the
  channel buffers down.  The \<open>PROP_SAMPLE_RATE\<close> case of \<open>gst_cepstrum_set_property\<close>
  stores the value and nothing else: \<open>channel_data\<close> and the heap stay as they are,
  whatever the old and the new value.
\<close>

theorem set_sample_rate_keeps_channel_data:
  "gst_cepstrum_set_property (PROP_SAMPLE_RATE v) cepstrum h
     = Inr (cepstrum\<lparr>sample_rate := v\<rparr>, h)
   \<and> channel_data (cepstrum\<lparr>sample_rate := v\<rparr>) = channel_data cepstrum"
  by simp

section \<open>The Interval Scheduler\<close>

lemma call_input_data_no_frames:
  "call_input_data r h dat off out 0 chans mv op nfft = Inr h"
  by (cases r)
     (simp_all add: input_data_mixed_float_def input_data_mixed_double_def
        input_data_mixed_int32_max_def input_data_mixed_int24_max_def
        input_data_mixed_int16_max_def input_data_float_def input_data_double_def
        input_data_int32_max_def input_data_int24_max_def input_data_int16_max_def)

lemma stuck_step:
  assumes "stuck ls"
  shows "transform_ip_step fftw dat ls = Inr ls"
proof -
  obtain r where r: "input_data (ls_cepstrum ls) = Some r"
    using assms by (auto simp: stuck_def Let_def)
  obtain cds where cds: "channel_data (ls_cepstrum ls) = Some cds"
    "output_channels (ls_cepstrum ls) \<le> length cds"
    using assms by (auto simp: stuck_def Let_def split: option.splits)
  have block: "transform_ip_block_size (ls_cepstrum ls) n (ls_size ls) = 0" for n
    using assms by (simp add: transform_ip_block_size_def stuck_def Let_def)
  have readers: "transform_ip_read (ls_cepstrum ls) dat (ls_data ls) 0 (ls_input_pos ls) n
      (ls_heap ls) = Inr (ls_heap ls)" for n
    unfolding transform_ip_read_def Let_def
    by (rule for_loop_id)
       (use cds r in \<open>auto simp: channel_at_def call_input_data_no_frames\<close>)
  show ?thesis
    using assms
    by (simp add: transform_ip_step_def transform_ip_mfcc_def stuck_def Let_def block readers
          u32_def u64_def sub_u64_def)
qed

lemma stuck_loop: "stuck ls \<Longrightarrow> transform_ip_loop fftw fuel dat ls = None"
  by (induction fuel) (auto simp: stuck_step, auto simp: stuck_def Let_def)

lemmas configure_defs = transform_ip_configure_def transform_ip_schedule_def
  gst_cepstrum_alloc_channel_data_def
  alloc_mel_filterbank_def gst_util_uint64_scale_def gst_cepstrum_flush_def
  gst_cepstrum_init_def

text \<open>
  Claim C5 says that the processing of a chunk always terminates, after a number of
  passes bounded by the input size, with the whole chunk consumed.  \<open>msg_todo\<close> is a
  32-bit variable that receives the 64-bit difference \<open>frames_todo - num_frames\<close>.
  With an interval of \<open>2 ^ 32 + 1\<close> frames, the first pass takes one frame of a
  two-frame chunk; from then on \<open>msg_todo\<close> and hence \<open>block_size\<close> are zero, the
  state no longer changes, and no number of passes reaches the exit of the loop.
\<close>

theorem transform_ip_never_returns:
  "gst_cepstrum_transform_ip fftw fuel two_frame_chunk long_interval_element two_frame_heap
     = None"
proof (cases fuel)
  case 0
  then show ?thesis
    by (simp add: gst_cepstrum_transform_ip_def configure_defs int_defs mem_defs
          long_interval_element_def configure_example_def two_frame_heap_def
          two_frame_chunk_def upt_conv_Cons)
next
  case (Suc n)
  show ?thesis
    unfolding Suc
    apply (simp add: gst_cepstrum_transform_ip_def configure_defs int_defs mem_defs
          transform_ip_step_def transform_ip_block_size_def transform_ip_read_def
          transform_ip_mfcc_def input_data_mixed_float_def output_channels_def
          long_interval_element_def configure_example_def two_frame_heap_def
          two_frame_chunk_def upt_conv_Cons)
    apply (subst stuck_loop)
     apply (simp add: stuck_def int_defs output_channels_def)
    apply simp
    done
qed


lemmas interval_defs = transform_ip_interval_def gst_cepstrum_prepare_message_data_def
  gst_cepstrum_reset_message_data_def gst_cepstrum_message_new_def
  gst_cepstrum_message_add_list_def GST_CLOCK_TIME_IS_VALID_def gst_util_uint64_scale_def
  output_channels_def

text \<open>
  Claim C6 says that the completion of an interval zeroes the spectral-magnitude
  accumulator and the coefficient accumulator of each channel and resets \<open>framesSeen\<close>
  and \<open>transformCount\<close>.  \<open>gst_cepstrum_reset_message_data\<close> clears the first
  \<open>num_coeffs\<close> entries of \<open>mfcc\<close> and nothing else; \<open>spect_magnitude\<close> is divided by
  \<open>num_fft\<close> for the message and keeps that value.  After the interval block the
  counters are \<open>0\<close> and \<open>mfcc[0]\<close> is \<open>0\<close>, but the spectrum accumulator is still
  \<open>[3, 4]\<close>.
\<close>

theorem interval_completion_keeps_spectrum:
  "(case transform_ip_interval interval_example_element interval_example_heap of
      Inl e \<Rightarrow> False
    | Inr (c, h) \<Rightarrow>
        num_frames c = 0 \<and> num_fft c = 0 \<and> cells h 4 = Some [0, 8]
        \<and> cells h 3 = Some [3, 4])"
  by (simp add: interval_defs interval_example_element_def interval_example_heap_def
        gst_cepstrum_init_def int_defs mem_defs upt_conv_Cons)

text \<open>
  Claim C4 says that the first chunk after a (re)configuration sets \<open>framesPerInterval\<close>
  to \<open>max (1, round (interval * sampleRate / 1e9))\<close>, \<open>errorPerInterval\<close> to
  \<open>(interval * sampleRate) mod 1e9\<close> and \<open>framesTarget\<close> to \<open>framesPerInterval\<close>, which
  is at least 1.  It does not hold as stated.  For 200000 ns on a stream of 8000 Hz
  (1.6 frames) the code computes 1 frame where rounding gives 2; the \<open>sample-rate\<close>
  property, 16000 in that element, does not enter (it would give 3 frames).  For 1 ns
  at 16000 Hz \<open>frames_todo\<close> is 0.  For \<open>2 ^ 63\<close> ns at 2 Hz the 64-bit product is 0,
  not \<open>2 ^ 64\<close>, whose remainder is 709551616.
\<close>

theorem configure_frames_counterexample:
  "frames_per_interval (transform_ip_schedule (configure_example 200000 8000)) = 1
   \<and> max 1 (round (200000 * 8000 / 10 ^ 9 :: real)) = 2
   \<and> sample_rate (configure_example 200000 8000) = 16000
   \<and> max 1 (round (200000 * 16000 / 10 ^ 9 :: real)) = 3
   \<and> frames_todo (transform_ip_schedule (configure_example 1 16000)) = 0
   \<and> error_per_interval (transform_ip_schedule (configure_example (2 ^ 63) 2)) = 0
   \<and> (2 ^ 63 * 2) mod 10 ^ 9 = (709551616 :: nat)"
  by (simp add: transform_ip_schedule_def gst_util_uint64_scale_def gst_cepstrum_flush_def
        gst_cepstrum_init_def configure_example_def int_defs round_def)

text \<open>
  Claim C4 as amended.  The assignments of the configuration block, which run once the
  allocation has returned, compute from the interval and from the rate of the
  negotiated stream, whenever their product is below \<open>2 ^ 64\<close>: \<open>frames_per_interval\<close>
  is \<open>interval * rate / 1e9\<close> rounded down, and at least 1; \<open>error_per_interval\<close> is
  \<open>(interval * rate) mod 1e9\<close>; and \<open>frames_todo\<close> equals \<open>frames_per_interval\<close>, hence
  is at least 1, whenever the product is at least \<open>1e9\<close>.
\<close>

theorem configure_frames:
  assumes "interval cepstrum * rate cepstrum < 2 ^ 64"
  shows "frames_per_interval (transform_ip_schedule cepstrum)
           = max 1 (interval cepstrum * rate cepstrum div 10 ^ 9)
       \<and> error_per_interval (transform_ip_schedule cepstrum)
           = (interval cepstrum * rate cepstrum) mod 10 ^ 9
       \<and> (10 ^ 9 \<le> interval cepstrum * rate cepstrum \<longrightarrow>
            frames_todo (transform_ip_schedule cepstrum)
              = frames_per_interval (transform_ip_schedule cepstrum)
            \<and> 1 \<le> frames_todo (transform_ip_schedule cepstrum))"
proof -
  have small: "interval cepstrum * rate cepstrum div 1000000000 < 18446744073709551616"
    using assms by (simp add: less_imp_diff_less div_le_dividend le_less_trans)
  have pos: "10 ^ 9 \<le> interval cepstrum * rate cepstrum \<Longrightarrow>
      0 < interval cepstrum * rate cepstrum div 1000000000"
    by (simp add: div_greater_zero_iff)
  show ?thesis
    using assms small pos
    by (auto simp: transform_ip_schedule_def Let_def gst_util_uint64_scale_def
          gst_cepstrum_flush_def int_defs max_def)
qed

text \<open>
  The scenario of the specification, with 13 coefficients and 26 filters: 100 ms at
  16000 Hz are 1600 frames, without remainder.
\<close>

theorem configure_frames_witness:
  "frames_per_interval (transform_ip_schedule
      ((configure_example 100000000 16000)\<lparr>num_coeffs := 13, num_filters := 26\<rparr>)) = 1600
   \<and> error_per_interval (transform_ip_schedule
      ((configure_example 100000000 16000)\<lparr>num_coeffs := 13, num_filters := 26\<rparr>)) = 0
   \<and> frames_todo (transform_ip_schedule
      ((configure_example 100000000 16000)\<lparr>num_coeffs := 13, num_filters := 26\<rparr>)) = 1600"
  using configure_frames
    [of "(configure_example 100000000 16000)\<lparr>num_coeffs := 13, num_filters := 26\<rparr>"]
  by (simp add: configure_example_def gst_cepstrum_init_def)

lemmas step_defs = gst_cepstrum_transform_ip_def transform_ip_step_def
  transform_ip_block_size_def transform_ip_read_def transform_ip_mfcc_def

text \<open>
  The 24-bit mixing reader sets its accumulator \<open>v\<close> to zero once per call, not once
  per frame, so every frame of a block after the first is stored with the sum of the
  frames before it added: the samples it leaves in the circular buffer depend on the
  blocks in which the scheduler reads them.  Two frames of value 1 in one chunk leave
  \<open>1, 2\<close>; the same frames in two chunks leave \<open>1, 1\<close>.  The fields of the element agree
  after both runs.
\<close>

lemma s24_downmix_depends_on_chunking:
  "(case gst_cepstrum_transform_ip fftw (Suc 0) s24_whole s24_element s24_heap of
      Some (Inr (c1, h1)) \<Rightarrow>
        (case gst_cepstrum_transform_ip fftw (Suc 0) s24_first s24_element s24_heap of
           Some (Inr (c2, h2)) \<Rightarrow>
             (case gst_cepstrum_transform_ip fftw (Suc 0) s24_second c2 h2 of
                Some (Inr (c3, h3)) \<Rightarrow>
                  c3 = c1
                  \<and> channel_data c1 = Some [\<lparr>input = 4, input_tmp = 5,
                                               spect_magnitude = 6, mfcc = 0\<rparr>]
                  \<and> map_option (\<lambda>xs. (xs ! 0, xs ! 1)) (cells h1 4) = Some (1, 2)
                  \<and> map_option (\<lambda>xs. (xs ! 0, xs ! 1)) (cells h3 4) = Some (1, 1)
              | _ \<Rightarrow> False)
         | _ \<Rightarrow> False)
    | _ \<Rightarrow> False)"
  by (simp add: step_defs configure_defs input_data_mixed_int24_max_def output_channels_def
        int_defs mem_defs s24_element_def s24_heap_def s24_whole_def s24_first_def
        s24_second_def upt_conv_Cons)

section \<open>The input chunk is only read\<close>

text \<open>
  Every function that stores into the heap stores into the array it is given, and the
  element hands out the arrays of its channels only.
\<close>

lemma wr_frame:
  "wr h p i v = Inr h' \<Longrightarrow> q \<noteq> p \<Longrightarrow> cells h' q = cells h q"
  by (auto simp: wr_def split: option.splits if_splits)

lemma for_loop_frame:
  assumes "for_loop xs body h = Inr h'"
    and "\<And>i t t'. i \<in> set xs \<Longrightarrow> body i t = Inr t' \<Longrightarrow> cells t' q = cells t q"
  shows "cells h' q = cells h q"
  by (rule for_loop_invariant [OF assms(1), where P = "\<lambda>t. cells t q = cells h q"])
     (auto dest: assms(2))

lemma pre_emphasis_frame:
  "pre_emphasis h data sz alpha = Inr h' \<Longrightarrow> q \<noteq> data \<Longrightarrow> cells h' q = cells h q"
  unfolding pre_emphasis_def
  by (erule for_loop_frame) (auto elim!: ebind_InrE dest!: wr_frame [where q = q])

lemma hamming_window_frame:
  "hamming_window h data sz = Inr h' \<Longrightarrow> q \<noteq> data \<Longrightarrow> cells h' q = cells h q"
  unfolding hamming_window_def
  by (erule for_loop_frame) (auto elim!: ebind_InrE dest!: wr_frame [where q = q])

lemma compute_dct_frame:
  "compute_dct h inp out sz = Inr h' \<Longrightarrow> q \<noteq> out \<Longrightarrow> cells h' q = cells h q"
  unfolding compute_dct_def
  apply (erule for_loop_frame)
  apply (erule ebind_InrE)
  apply (drule for_loop_frame [where q = q])
   apply (auto elim!: ebind_InrE dest!: wr_frame [where q = q])
  done

lemma compute_mel_filterbank_frame:
  "compute_mel_filterbank h inp out fbank nfilts nfft = Inr h' \<Longrightarrow> q \<noteq> out
     \<Longrightarrow> cells h' q = cells h q"
  unfolding compute_mel_filterbank_def
  apply (erule for_loop_frame)
  apply (elim ebind_InrE)
  apply (drule for_loop_frame [where q = q])
   apply (auto elim!: ebind_InrE dest!: wr_frame [where q = q])
  done

lemma gst_cepstrum_fft_frame:
  "gst_cepstrum_fft fftw c cd h = Inr h' \<Longrightarrow> q \<noteq> spect_magnitude cd
     \<Longrightarrow> cells h' q = cells h q"
  unfolding gst_cepstrum_fft_def Let_def
  apply (simp split: option.splits)
  apply (erule for_loop_frame)
  apply (auto elim!: ebind_InrE dest!: wr_frame [where q = q] split: if_splits)
  done

lemma run_mfcc_copy_frame:
  "run_mfcc_copy h inp tmp pos n = Inr h' \<Longrightarrow> q \<noteq> tmp \<Longrightarrow> cells h' q = cells h q"
  unfolding run_mfcc_copy_def
  by (erule for_loop_frame) (auto elim!: ebind_InrE dest!: wr_frame [where q = q])

lemma gst_cepstrum_run_mfcc_frame:
  assumes "gst_cepstrum_run_mfcc fftw c cd pos h = Inr h'"
    and "q \<noteq> input_tmp cd" and "q \<noteq> spect_magnitude cd" and "q \<noteq> mfcc cd"
  shows "cells h' q = cells h q"
  using assms unfolding gst_cepstrum_run_mfcc_def Let_def
  by (auto elim!: ebind_InrE split: if_splits
        dest!: run_mfcc_copy_frame [where q = q] pre_emphasis_frame [where q = q]
          hamming_window_frame [where q = q] gst_cepstrum_fft_frame [where q = q]
          compute_mel_filterbank_frame [where q = q] compute_dct_frame [where q = q])

lemma for_loop_frame_fst:
  assumes "for_loop xs body (h, a) = Inr (h', a')"
    and "\<And>i t b t' b'. i \<in> set xs \<Longrightarrow> body i (t, b) = Inr (t', b')
           \<Longrightarrow> cells t' q = cells t q"
  shows "cells h' q = cells h q"
  using for_loop_invariant [OF assms(1), where P = "\<lambda>(t, b). cells t q = cells h q"] assms(2)
  by fastforce

lemma input_data_mixed_float_frame:
  assumes "input_data_mixed_float h dat off out len chans mv op nfft = Inr h'" and "q \<noteq> out"
  shows "cells h' q = cells h q"
  using assms unfolding input_data_mixed_float_def
  apply (elim ebind_InrE)
  apply clarsimp
  apply (erule for_loop_frame_fst)
  apply (auto elim!: ebind_InrE dest!: wr_frame [where q = q] split: if_splits)
  done

lemma input_data_mixed_int32_max_frame:
  assumes "input_data_mixed_int32_max h dat off out len chans mv op nfft = Inr h'" and "q \<noteq> out"
  shows "cells h' q = cells h q"
  using assms unfolding input_data_mixed_int32_max_def
  apply (elim ebind_InrE)
  apply clarsimp
  apply (erule for_loop_frame_fst)
  apply (auto elim!: ebind_InrE dest!: wr_frame [where q = q] split: if_splits)
  done

lemma input_data_mixed_int24_max_frame:
  assumes "input_data_mixed_int24_max h dat off out len chans mv op nfft = Inr h'" and "q \<noteq> out"
  shows "cells h' q = cells h q"
  using assms unfolding input_data_mixed_int24_max_def
  apply (elim ebind_InrE)
  apply clarsimp
  apply (erule for_loop_frame_fst)
  apply (auto elim!: ebind_InrE dest!: wr_frame [where q = q] split: if_splits)
  done

lemma input_data_float_frame:
  assumes "input_data_float h dat off out len chans mv op nfft = Inr h'" and "q \<noteq> out"
  shows "cells h' q = cells h q"
  using assms unfolding input_data_float_def
  apply (elim ebind_InrE)
  apply clarsimp
  apply (erule for_loop_frame_fst)
  apply (auto elim!: ebind_InrE dest!: wr_frame [where q = q] split: if_splits)
  done

lemma input_data_int32_max_frame:
  assumes "input_data_int32_max h dat off out len chans mv op nfft = Inr h'" and "q \<noteq> out"
  shows "cells h' q = cells h q"
  using assms unfolding input_data_int32_max_def
  apply (elim ebind_InrE)
  apply clarsimp
  apply (erule for_loop_frame_fst)
  apply (auto elim!: ebind_InrE dest!: wr_frame [where q = q] split: if_splits)
  done

lemma input_data_int24_max_frame:
  assumes "input_data_int24_max h dat off out len chans mv op nfft = Inr h'" and "q \<noteq> out"
  shows "cells h' q = cells h q"
  using assms unfolding input_data_int24_max_def
  apply (elim ebind_InrE)
  apply clarsimp
  apply (erule for_loop_frame_fst)
  apply (auto elim!: ebind_InrE dest!: wr_frame [where q = q] split: if_splits)
  done

lemma call_input_data_frame:
  assumes "call_input_data r h dat off out len chans mv op nfft = Inr h'" and "q \<noteq> out"
  shows "cells h' q = cells h q"
  using assms
  by (cases r)
     (auto simp: input_data_mixed_double_def input_data_mixed_int16_max_def
        input_data_double_def input_data_int16_max_def
        dest: input_data_mixed_float_frame input_data_mixed_int32_max_frame
          input_data_mixed_int24_max_frame input_data_float_frame input_data_int32_max_frame
          input_data_int24_max_frame)

lemma prepare_message_data_frame:
  "gst_cepstrum_prepare_message_data c cd h = Inr h' \<Longrightarrow> q \<noteq> spect_magnitude cd
     \<Longrightarrow> cells h' q = cells h q"
  unfolding gst_cepstrum_prepare_message_data_def
  by (erule for_loop_frame) (auto elim!: ebind_InrE dest!: wr_frame [where q = q])

lemma reset_message_data_frame:
  "gst_cepstrum_reset_message_data c cd h = Inr h' \<Longrightarrow> q \<noteq> mfcc cd
     \<Longrightarrow> cells h' q = cells h q"
  unfolding gst_cepstrum_reset_message_data_def Let_def
  by (erule for_loop_frame) (auto elim!: ebind_InrE dest!: wr_frame [where q = q])

lemma channel_loop_frame:
  assumes "for_loop xs (\<lambda>ch h. ebind (channel_at c ch) (\<lambda>cd. f ch cd h)) h = Inr h'"
    and "q \<notin> owned c"
    and "\<And>ch cd t t'. f ch cd t = Inr t' \<Longrightarrow> q \<noteq> input cd \<Longrightarrow> q \<noteq> input_tmp cd
           \<Longrightarrow> q \<noteq> spect_magnitude cd \<Longrightarrow> q \<noteq> mfcc cd \<Longrightarrow> cells t' q = cells t q"
  shows "cells h' q = cells h q"
proof (rule for_loop_frame [OF assms(1)])
  fix i t t'
  assume "ebind (channel_at c i) (\<lambda>cd. f i cd t) = Inr t'"
  then obtain cd where cd: "channel_at c i = Inr cd" "f i cd t = Inr t'"
    by (auto elim: ebind_InrE)
  from cd(1) assms(2) have "q \<noteq> input cd" "q \<noteq> input_tmp cd" "q \<noteq> spect_magnitude cd"
    "q \<noteq> mfcc cd"
    by (auto simp: channel_at_def owned_def split: option.splits if_splits)
  then show "cells t' q = cells t q"
    using assms(3) [OF cd(2)] by simp
qed

lemma transform_ip_interval_frame:
  assumes "transform_ip_interval c h = Inr (c', h')" and "q \<notin> owned c"
  shows "cells h' q = cells h q \<and> channel_data c' = channel_data c"
  using assms unfolding transform_ip_interval_def Let_def
  apply (elim ebind_InrE)
  apply (clarsimp split: if_splits)
  apply (auto elim!: ebind_InrE
      dest!: channel_loop_frame [where q = q] simp: owned_def
      intro: prepare_message_data_frame reset_message_data_frame)
  done

lemma transform_ip_read_frame:
  assumes "transform_ip_read c dat data n pos nfft h = Inr h'" and "q \<notin> owned c"
  shows "cells h' q = cells h q"
  using assms unfolding transform_ip_read_def Let_def
  by (rule channel_loop_frame) (auto split: option.splits dest: call_input_data_frame)

lemma transform_ip_mfcc_frame:
  assumes "transform_ip_mfcc fftw c full pos nfft h = Inr (c', h')" and "q \<notin> owned c"
  shows "cells h' q = cells h q \<and> channel_data c' = channel_data c"
  using assms unfolding transform_ip_mfcc_def
  by (auto split: if_splits elim!: ebind_InrE
        dest!: channel_loop_frame [where q = q] intro: gst_cepstrum_run_mfcc_frame)

lemma transform_ip_step_frame:
  assumes "transform_ip_step fftw dat ls = Inr ls'" and "q \<notin> owned (ls_cepstrum ls)"
  shows "cells (ls_heap ls') q = cells (ls_heap ls) q
       \<and> channel_data (ls_cepstrum ls') = channel_data (ls_cepstrum ls)"
proof -
  let ?c = "ls_cepstrum ls"
  let ?n = "nfft_of (fft_size ?c)"
  let ?b = "transform_ip_block_size ?c ?n (ls_size ls)"
  let ?c1 = "?c\<lparr>num_frames := u64 (num_frames ?c + ?b)\<rparr>"
  let ?full = "num_frames ?c1 = frames_todo ?c1"
  from assms(1) obtain h1 c2 h2 c3 h3 where
    rd: "transform_ip_read ?c dat (ls_data ls) ?b (ls_input_pos ls) ?n (ls_heap ls) = Inr h1"
    and tr: "transform_ip_mfcc fftw ?c1 ?full (u32 (ls_input_pos ls + ?b) mod ?n) ?n h1
               = Inr (c2, h2)"
    and iv: "(if ?full then transform_ip_interval c2 h2 else Inr (c2, h2)) = Inr (c3, h3)"
    and res: "ls_cepstrum ls' = c3" "ls_heap ls' = h3"
    unfolding transform_ip_step_def Let_def
    by (auto split: if_splits elim!: ebind_InrE)
  have own1: "q \<notin> owned ?c1"
    using assms(2) by (simp add: owned_def)
  have 1: "cells h1 q = cells (ls_heap ls) q"
    using transform_ip_read_frame [OF rd assms(2)] .
  have 2: "cells h2 q = cells h1 q" "channel_data c2 = channel_data ?c"
    using transform_ip_mfcc_frame [OF tr own1] by simp_all
  have own2: "q \<notin> owned c2"
    using assms(2) 2(2) by (simp add: owned_def)
  have 3: "cells h3 q = cells h2 q \<and> channel_data c3 = channel_data c2"
    using iv transform_ip_interval_frame [OF _ own2] by (auto split: if_splits)
  show ?thesis
    using 1 2 3 res by simp
qed

lemma transform_ip_loop_frame:
  assumes "transform_ip_loop fftw fuel dat ls = Some (Inr ls')"
    and "q \<notin> owned (ls_cepstrum ls)"
  shows "cells (ls_heap ls') q = cells (ls_heap ls) q"
  using assms
proof (induction fuel arbitrary: ls)
  case 0
  then show ?case by (simp split: if_splits)
next
  case (Suc fuel)
  show ?case
  proof (cases "bpf (ls_cepstrum ls) \<le> ls_size ls")
    case False
    with Suc.prems show ?thesis by simp
  next
    case True
    with Suc.prems(1) obtain ls1 where
      step: "transform_ip_step fftw dat ls = Inr ls1"
      and rest: "transform_ip_loop fftw fuel dat ls1 = Some (Inr ls')"
      by (auto split: sum.splits)
    have fr: "cells (ls_heap ls1) q = cells (ls_heap ls) q"
      "channel_data (ls_cepstrum ls1) = channel_data (ls_cepstrum ls)"
      using transform_ip_step_frame [OF step Suc.prems(2)] by simp_all
    have "q \<notin> owned (ls_cepstrum ls1)"
      using Suc.prems(2) fr(2) by (simp add: owned_def)
    from Suc.IH [OF rest this] fr(1) show ?thesis by simp
  qed
qed

lemma alloc_mel_filterbank_returns:
  assumes "alloc_mel_filterbank h (replicate nfilts 0) nfilts srate nfft = Inr (fbank', h')"
  shows "nfilts = 0 \<and> fbank' = [] \<and> h' = h"
proof (cases "nfilts = 0")
  case True
  with assms show ?thesis
    by (simp add: alloc_mel_filterbank_def Let_def)
next
  case False
  then have "\<exists>e. alloc_mel_filterbank h (replicate nfilts 0) nfilts srate nfft = Inl e"
    by (intro alloc_mel_filterbank_overruns) simp_all
  with assms show ?thesis by simp
qed

lemma alloc_channel_data_frame:
  assumes "gst_cepstrum_alloc_channel_data c h = Inr (c', h')"
    and "0 < q" and "q < next_free h"
  shows "cells h' q = cells h q \<and> q \<notin> owned c'"
proof -
  let ?nchan = "if multi_channel c then channels c else 1"
  let ?P = "\<lambda>(cds, t). next_free h \<le> next_free t \<and> cells t q = cells h q
      \<and> (\<forall>cd \<in> set cds. q \<noteq> input cd \<and> q \<noteq> input_tmp cd \<and> q \<noteq> spect_magnitude cd \<and> q \<noteq> mfcc cd)"
  from assms(1) obtain cds h1 fb where
    loop: "for_loop [0..<?nchan] (\<lambda>i (cds, h).
        (let (p_input, h) = g_new0 h (nfft_of (fft_size c));
             (p_tmp, h) = g_new0 h (nfft_of (fft_size c));
             (p_mag, h) = g_new0 h (fft_size c);
             (p_mfcc, h) = g_new0 h (num_filters c) in
         Inr (cds @ [\<lparr>input = p_input, input_tmp = p_tmp,
                       spect_magnitude = p_mag, mfcc = p_mfcc\<rparr>], h))) ([], h) = Inr (cds, h1)"
    and mel: "alloc_mel_filterbank h1 (replicate (num_filters c) 0) (num_filters c)
        (sample_rate c) (nfft_of (fft_size c)) = Inr (fb, h')"
    and c': "channel_data c' = (if ?nchan = 0 then None else Some cds)"
    unfolding gst_cepstrum_alloc_channel_data_def Let_def
    by (auto split: if_splits elim!: ebind_InrE)
  have "?P (cds, h1)"
    using assms(2,3)
    by (intro for_loop_invariant [OF loop, where P = ?P])
       (auto simp: Let_def g_new0_def split: prod.splits if_splits)
  moreover have "h' = h1"
    using alloc_mel_filterbank_returns [OF mel] by simp
  ultimately show ?thesis
    using c' by (auto simp: owned_def)
qed


lemma transform_ip_configure_frame:
  assumes "transform_ip_configure c h = Inr (c', h')" and "0 < q" and "q < next_free h"
  shows "cells h' q = cells h q \<and> q \<notin> owned c'"
proof -
  from assms(1) obtain c1 where
    alloc: "gst_cepstrum_alloc_channel_data c h = Inr (c1, h')"
    and c': "channel_data c' = channel_data c1"
    unfolding transform_ip_configure_def transform_ip_schedule_def Let_def
      gst_cepstrum_flush_def
    by (auto elim!: ebind_InrE split: if_splits)
  show ?thesis
    using alloc_channel_data_frame [OF alloc assms(2,3)] c' by (simp add: owned_def)
qed

text \<open>
  Claim C10: whenever the processing of a chunk returns, the memory of the chunk holds
  what it held before the call.  The chunk is an allocated block (its address is not
  \<open>NULL\<close> and lies below the allocator's next address) that is none of the arrays
  of the channels.
\<close>

theorem transform_ip_keeps_input:
  assumes run: "gst_cepstrum_transform_ip fftw fuel buffer cepstrum h = Some (Inr (cepstrum', h'))"
    and "0 < buf_data buffer" and "buf_data buffer < next_free h"
    and "buf_data buffer \<notin> owned cepstrum"
  shows "cells h' (buf_data buffer) = cells h (buf_data buffer)"
proof -
  let ?q = "buf_data buffer"
  let ?c0 = "if buf_discont buffer then gst_cepstrum_flush cepstrum else cepstrum"
  have own0: "?q \<notin> owned ?c0"
    using assms(4) by (simp add: owned_def gst_cepstrum_flush_def)
  from run obtain c1 h1 ls where
    cfg: "(if channel_data ?c0 = None then transform_ip_configure ?c0 h else Inr (?c0, h))
            = Inr (c1, h1)"
    and loop: "transform_ip_loop fftw fuel ?q
        \<lparr>ls_cepstrum = (if num_frames c1 = 0 then c1\<lparr>message_ts := buf_timestamp buffer\<rparr>
                         else c1),
         ls_heap = h1, ls_data = 0, ls_size = buf_size buffer, ls_input_pos = input_pos c1\<rparr>
        = Some (Inr ls)"
    and h': "h' = ls_heap ls"
    unfolding gst_cepstrum_transform_ip_def Let_def
    by (auto split: sum.splits option.splits if_splits prod.splits)
  have 1: "cells h1 ?q = cells h ?q \<and> ?q \<notin> owned c1"
  proof (cases "channel_data ?c0 = None")
    case True
    with cfg have "transform_ip_configure ?c0 h = Inr (c1, h1)" by simp
    from transform_ip_configure_frame [OF this assms(2,3)] show ?thesis .
  next
    case False
    with cfg own0 show ?thesis by auto
  qed
  then have "?q \<notin> owned (if num_frames c1 = 0 then c1\<lparr>message_ts := buf_timestamp buffer\<rparr>
                             else c1)"
    by (simp add: owned_def)
  from transform_ip_loop_frame [OF loop] this have "cells (ls_heap ls) ?q = cells h1 ?q"
    by simp
  with 1 h' show ?thesis by simp
qed

text \<open>
  A run in which two frames complete a frame and an interval: the transform and the
  projection run, a message is posted, and the chunk at address 7 is unchanged.  The
  function in the place of FFTW returns two fixed bins.
\<close>

lemmas mfcc_defs = gst_cepstrum_run_mfcc_def run_mfcc_copy_def pre_emphasis_def
  hamming_window_def gst_cepstrum_fft_def compute_mel_filterbank_def compute_dct_def

lemma mfcc_example_run:
  "\<exists>c h. gst_cepstrum_transform_ip (\<lambda>xs. [(1, 0), (0, 1)]) (Suc 0) mfcc_example_chunk
       mfcc_example_element mfcc_example_heap = Some (Inr (c, h)) \<and> length (posted c) = 1"
    by (simp add: gst_cepstrum_transform_ip_def transform_ip_step_def
          transform_ip_block_size_def transform_ip_read_def transform_ip_mfcc_def
          input_data_mixed_float_def mfcc_defs interval_defs int_defs mem_defs
          mfcc_example_element_def mfcc_example_heap_def mfcc_example_chunk_def
          interval_example_element_def interval_example_heap_def gst_cepstrum_init_def
          upt_conv_Cons)

theorem transform_ip_keeps_input_witness:
  "\<exists>c h. gst_cepstrum_transform_ip (\<lambda>xs. [(1, 0), (0, 1)]) (Suc 0) mfcc_example_chunk
       mfcc_example_element mfcc_example_heap = Some (Inr (c, h))
     \<and> length (posted c) = 1 \<and> cells h 7 = Some [0.5, 0.25]"
proof -
  obtain c h where
    run: "gst_cepstrum_transform_ip (\<lambda>xs. [(1, 0), (0, 1)]) (Suc 0) mfcc_example_chunk
            mfcc_example_element mfcc_example_heap = Some (Inr (c, h))"
    and msg: "length (posted c) = 1"
    using mfcc_example_run by blast
  have "cells h (buf_data mfcc_example_chunk)
          = cells mfcc_example_heap (buf_data mfcc_example_chunk)"
    by (rule transform_ip_keeps_input [OF run])
       (simp_all add: mfcc_example_chunk_def mfcc_example_heap_def mfcc_example_element_def
          interval_example_element_def interval_example_heap_def owned_def)
  then show ?thesis
    using run msg
    by (simp add: mfcc_example_chunk_def mfcc_example_heap_def interval_example_heap_def)
qed

end
